theory Spec2Isabelle
  imports Main "HOL-Library.Word"
begin

section \<open>The plain gdb adapter (src/plugins/debugger/gdb/plaingdbadapter.cpp)\<close>

text \<open>
  \<open>PlainGdbAdapter\<close> drives a gdb process for the engine that owns it. Every member
  function is modelled as a function from the adapter before the call to the adapter
  after it. What a call does to its surroundings (log lines, commands posted to the
  engine, signals emitted, calls on the output collector and on the gdb process) is
  appended, in program order, to the field \<open>trace\<close>.
\<close>

subsection \<open>Data\<close>

text \<open>
  Modelled from the spec: the enumeration \<open>DebuggerState\<close> is declared in a header
  that is not among the sources at hand. Its values here are the states that
  plaingdbadapter.cpp names, together with \<open>AdapterShutDown\<close> from the state list of
  the specification (which calls \<open>EngineStarting\<close> and \<open>AdapterStarted\<close>
  \<open>Starting\<close> and \<open>Started\<close>).
\<close>

datatype DebuggerState =
    EngineStarting
  | AdapterStarting
  | AdapterStarted
  | InferiorPreparing
  | InferiorPrepared
  | InferiorPreparationFailed
  | InferiorStarting
  | InferiorRunningRequested
  | InferiorRunning
  | InferiorStartFailed
  | InferiorStopping
  | InferiorStopped
  | InferiorShuttingDown
  | InferiorShutDown
  | InferiorShutdownFailed
  | AdapterShuttingDown
  | AdapterShutDown

text \<open>
  Modelled from the spec: the result classes of a response (declared with
  \<open>GdbResponse\<close>, outside the sources at hand) are the two the adapter tests for and
  the two others the specification lists.
\<close>

datatype GdbResultClass = GdbResultDone | GdbResultRunning | GdbResultError | GdbResultExit

text \<open>
  Modelled from the spec: the payload of a response is a tree of named values. A node
  has a name, a value and children.
\<close>

datatype GdbMi = GdbMi (mi_name: string) (mi_data: string) (mi_children: "GdbMi list")

record GdbResponse =
  resultClass :: GdbResultClass
  data :: GdbMi

datatype ProcessError = FailedToStart | Crashed | Timedout | ReadError | WriteError | UnknownError

record StartParameters =
  executable :: string
  processArgs :: "string list"
  workingDir :: string
  environment :: "string list"

text \<open>The member functions handed to \<open>postCommand\<close> through the macro \<open>CB\<close>.\<close>

datatype AdapterCallback =
    NoCallback
  | CB_handleFileExecAndSymbols
  | CB_handleExecRun
  | CB_handleKill
  | CB_handleExit

datatype GdbCommandFlag = NoFlags | RunRequest

text \<open>The signals of the adapter, with their arguments.\<close>

datatype signal =
    adapterStarted
  | adapterStartFailed string string
  | adapterCrashed string
  | inferiorPrepared
  | inferiorPreparationFailed string
  | inferiorStartFailed string
  | inferiorShutDown
  | inferiorShutdownFailed string
  | adapterShutDown
  | adapterShutdownFailed string

text \<open>A value substituted into, or appended to, the text of a log line.\<close>

datatype logarg = ArgState DebuggerState | ArgPid "64 word" | ArgResponse GdbResponse

datatype event =
    DebugMessage string "logarg list"
  | ShowStatusMessage string
  | AssertionFailed string
  | QDebug DebuggerState
  | SetState DebuggerState
  | PostCommand string GdbCommandFlag AdapterCallback
  | Emit signal
  | CollectorListen bool
  | CollectorShutdown
  | ProcSetWorkingDirectory string
  | ProcSetEnvironment "string list"
  | ProcStart string "string list"
  | InterruptProcess "64 word" bool

text \<open>
  The adapter and what it reads from its engine: \<open>state\<close> is what \<open>state()\<close> returns
  and \<open>setState\<close> assigns, \<open>inferiorPid\<close> is \<open>m_engine->inferiorPid()\<close> (a
  \<open>qint64\<close>), \<open>collectorListening\<close> tells whether \<open>m_outputCollector\<close> holds its
  server open.
\<close>

record adapter =
  state :: DebuggerState
  inferiorPid :: "64 word"
  startParameters :: StartParameters
  collectorListening :: bool
  trace :: "event list"

text \<open>
  What the adapter obtains from code outside the sources at hand is a parameter of the
  model: the outcome of \<open>m_outputCollector.listen()\<close> with the collector's error
  text and server name, the gdb location setting, the outcome of \<open>interruptProcess\<close>,
  the message builders of the base class and of the engine, and
  \<open>QFileInfo::absoluteFilePath\<close>.
\<close>

record env =
  collectorListen :: bool
  collectorErrorString :: string
  collectorServerName :: string
  gdbLocation :: string
  interruptProcess :: "64 word \<Rightarrow> bool"
  msgInferiorStarted :: string
  msgInferiorStopFailed :: "string \<Rightarrow> string"
  msgGdbStopFailed :: "string \<Rightarrow> string"
  errorMessage :: "ProcessError \<Rightarrow> string"
  absoluteFilePath :: "string \<Rightarrow> string"

subsection \<open>Helpers\<close>

text \<open>
  \<open>QString::arg\<close> with one argument: every format string of this file has \<open>%1\<close> as
  its only place marker.
\<close>

fun qarg :: "string \<Rightarrow> string \<Rightarrow> string" where
  "qarg (CHR ''%'' # CHR ''1'' # rest) a = a @ qarg rest a"
| "qarg (c # rest) a = c # qarg rest a"
| "qarg [] a = []"

text \<open>\<open>QStringList::join\<close>.\<close>

fun join :: "string list \<Rightarrow> string \<Rightarrow> string" where
  "join [] sep = []"
| "join [x] sep = x"
| "join (x # y # ys) sep = x @ sep @ join (y # ys) sep"

text \<open>
  \<open>tr\<close> gives back its source text where no translation is installed; the model is of
  the untranslated program. \<open>_\<close> and \<open>__\<close> turn a byte string into a \<open>QString\<close>
  character by character, which is the identity on the strings of the model.
\<close>

definition tr :: "string \<Rightarrow> string" where
  "tr s = s"

text \<open>
  Modelled from the spec: \<open>GdbMi::findChild\<close> is defined outside the sources at hand.
  It looks a key up among the children of a node; for a key that is absent the result
  is the empty node, whose value is the empty string.
\<close>

fun findChildIn :: "GdbMi list \<Rightarrow> string \<Rightarrow> GdbMi" where
  "findChildIn [] name = GdbMi [] [] []"
| "findChildIn (c # cs) name = (if mi_name c = name then c else findChildIn cs name)"

definition findChild :: "GdbMi \<Rightarrow> string \<Rightarrow> GdbMi" where
  "findChild m name = findChildIn (mi_children m) name"

definition record_event :: "event \<Rightarrow> adapter \<Rightarrow> adapter" where
  "record_event e a = a\<lparr>trace := trace a @ [e]\<rparr>"

definition debugMessage :: "string \<Rightarrow> logarg list \<Rightarrow> adapter \<Rightarrow> adapter" where
  "debugMessage msg args a = record_event (DebugMessage msg args) a"

definition showStatusMessage :: "string \<Rightarrow> adapter \<Rightarrow> adapter" where
  "showStatusMessage msg a = record_event (ShowStatusMessage msg) a"

definition setState :: "DebuggerState \<Rightarrow> adapter \<Rightarrow> adapter" where
  "setState st a = record_event (SetState st) (a\<lparr>state := st\<rparr>)"

definition postCommand :: "string \<Rightarrow> GdbCommandFlag \<Rightarrow> AdapterCallback \<Rightarrow> adapter \<Rightarrow> adapter" where
  "postCommand cmd flag cb a = record_event (PostCommand cmd flag cb) a"

text \<open>
  \<open>emit\<close>: the slots connected to a signal belong to the engine, not to the adapter;
  the model records that the signal was emitted and with which arguments.
\<close>

definition emit :: "signal \<Rightarrow> adapter \<Rightarrow> adapter" where
  "emit sg a = record_event (Emit sg) a"

text \<open>
  \<open>QTC_ASSERT(cond, action)\<close> comes from utils/qtcassert.h, which is not among the
  sources at hand. Its call sites fix what is modelled: the second argument is the
  statement run when the condition fails (here always \<open>qDebug() << state()\<close>), and the
  comment \<open>Fall through\<close> after \<open>QTC_ASSERT(false, ...)\<close> in \<open>shutdown\<close> says that
  control goes on after a failed assertion. A failed assertion therefore leaves two
  events, the report of the condition and the state printed by the action.
\<close>

definition QTC_ASSERT :: "bool \<Rightarrow> string \<Rightarrow> adapter \<Rightarrow> adapter" where
  "QTC_ASSERT cond txt a =
     (if cond then a
      else record_event (QDebug (state a)) (record_event (AssertionFailed txt) a))"

subsection \<open>The member functions\<close>

definition startAdapter :: "env \<Rightarrow> adapter \<Rightarrow> adapter" where
  "startAdapter e a0 =
     (let a1 = QTC_ASSERT (state a0 = EngineStarting) ''state() == EngineStarting'' a0;
          a2 = setState AdapterStarting a1;
          a3 = debugMessage ''TRYING TO START ADAPTER'' [] a2;
          gdbArgs = [''-i'', ''mi''];
          a4 = record_event (CollectorListen (collectorListen e))
                 (a3\<lparr>collectorListening := collectorListen e\<rparr>)
      in if \<not> collectorListen e then
           emit (adapterStartFailed
                   (qarg (tr ''Cannot set up communication with child process: %1'')
                         (collectorErrorString e)) []) a4
         else
           let gdbArgs' = (''--tty='' @ collectorServerName e) # gdbArgs;
               a5 = (if workingDir (startParameters a4) \<noteq> []
                     then record_event (ProcSetWorkingDirectory (workingDir (startParameters a4))) a4
                     else a4);
               a6 = (if environment (startParameters a5) \<noteq> []
                     then record_event (ProcSetEnvironment (environment (startParameters a5))) a5
                     else a5)
           in record_event (ProcStart (gdbLocation e) gdbArgs') a6)"

definition handleGdbStarted :: "adapter \<Rightarrow> adapter" where
  "handleGdbStarted a0 =
     (let a1 = QTC_ASSERT (state a0 = AdapterStarting) ''state() == AdapterStarting'' a0;
          a2 = setState AdapterStarted a1
      in emit adapterStarted a2)"

definition handleGdbError :: "env \<Rightarrow> ProcessError \<Rightarrow> adapter \<Rightarrow> adapter" where
  "handleGdbError e err a0 =
     (let a1 = debugMessage ''PLAIN ADAPTER, HANDLE GDB ERROR'' [] a0
      in emit (adapterCrashed (errorMessage e err)) a1)"

definition prepareInferior :: "env \<Rightarrow> adapter \<Rightarrow> adapter" where
  "prepareInferior e a0 =
     (let a1 = QTC_ASSERT (state a0 = AdapterStarted) ''state() == AdapterStarted'' a0;
          a2 = setState InferiorPreparing a1;
          a3 = (if processArgs (startParameters a2) \<noteq> []
                then postCommand (''-exec-arguments '' @ join (processArgs (startParameters a2)) '' '')
                       NoFlags NoCallback a2
                else a2)
      in postCommand
           (qarg (''-file-exec-and-symbols '' @ [CHR 0x22] @ ''%1'' @ [CHR 0x22])
                 (absoluteFilePath e (executable (startParameters a3))))
           NoFlags CB_handleFileExecAndSymbols a3)"

definition handleFileExecAndSymbols :: "GdbResponse \<Rightarrow> adapter \<Rightarrow> adapter" where
  "handleFileExecAndSymbols response a0 =
     (let a1 = QTC_ASSERT (state a0 = InferiorPreparing) ''state() == InferiorPreparing'' a0
      in if resultClass response = GdbResultDone then
           emit inferiorPrepared (setState InferiorPrepared a1)
         else
           let msg = tr (''Starting executable failed:'' @ [CHR 0x0A])
                       @ mi_data (findChild (data response) ''msg'')
           in emit (inferiorPreparationFailed msg) (setState InferiorPreparationFailed a1))"

definition handleExecRun :: "env \<Rightarrow> GdbResponse \<Rightarrow> adapter \<Rightarrow> adapter" where
  "handleExecRun e response a0 =
     (if resultClass response = GdbResultRunning then
        let a1 = QTC_ASSERT (state a0 = InferiorRunning) ''state() == InferiorRunning'' a0;
            a2 = debugMessage ''INFERIOR STARTED'' [] a1
        in showStatusMessage (msgInferiorStarted e) a2
      else
        let a1 = QTC_ASSERT (state a0 = InferiorRunningRequested)
                   ''state() == InferiorRunningRequested'' a0;
            msg = mi_data (findChild (data response) ''msg'');
            a2 = setState InferiorStartFailed a1
        in emit (inferiorStartFailed msg) a2)"

definition startInferior :: "adapter \<Rightarrow> adapter" where
  "startInferior a0 =
     (let a1 = QTC_ASSERT (state a0 = InferiorStarting) ''state() == InferiorStarting'' a0;
          a2 = setState InferiorRunningRequested a1
      in postCommand ''-exec-run'' RunRequest CB_handleExecRun a2)"

definition interruptInferior :: "env \<Rightarrow> adapter \<Rightarrow> adapter" where
  "interruptInferior e a0 =
     (let a1 = debugMessage ''TRYING TO INTERUPT INFERIOR'' [] a0;
          attachedPID = inferiorPid a1
      in if sint attachedPID \<le> 0 then
           debugMessage ''TRYING TO INTERRUPT INFERIOR BEFORE PID WAS OBTAINED'' [] a1
         else
           let ok = interruptProcess e attachedPID;
               a2 = record_event (InterruptProcess attachedPID ok) a1
           in if \<not> ok then debugMessage ''CANNOT INTERRUPT %1'' [ArgPid attachedPID] a2
              else a2)"

definition shutdown :: "adapter \<Rightarrow> adapter" where
  "shutdown a0 =
     (let a1 = debugMessage ''PLAIN ADAPTER SHUTDOWN %1'' [ArgState (state a0)] a0;
          a2 = record_event CollectorShutdown (a1\<lparr>collectorListening := False\<rparr>)
      in case state a2 of
           InferiorRunningRequested \<Rightarrow>
             postCommand ''kill'' NoFlags CB_handleKill (setState InferiorShuttingDown a2)
         | InferiorRunning \<Rightarrow>
             postCommand ''kill'' NoFlags CB_handleKill (setState InferiorShuttingDown a2)
         | InferiorStopping \<Rightarrow>
             postCommand ''kill'' NoFlags CB_handleKill (setState InferiorShuttingDown a2)
         | InferiorStopped \<Rightarrow>
             postCommand ''kill'' NoFlags CB_handleKill (setState InferiorShuttingDown a2)
         | InferiorShuttingDown \<Rightarrow>
             postCommand ''-gdb-exit'' NoFlags CB_handleExit
               (setState AdapterShuttingDown (QTC_ASSERT False ''false'' a2))
         | InferiorShutDown \<Rightarrow>
             postCommand ''-gdb-exit'' NoFlags CB_handleExit (setState AdapterShuttingDown a2)
         | _ \<Rightarrow> QTC_ASSERT False ''false'' a2)"

definition handleKill :: "env \<Rightarrow> GdbResponse \<Rightarrow> adapter \<Rightarrow> adapter" where
  "handleKill e response a0 =
     (let a1 = debugMessage ''PLAIN ADAPTER HANDLE KILL '' [ArgResponse response] a0
      in if resultClass response = GdbResultDone then
           shutdown (emit inferiorShutDown (setState InferiorShutDown a1))
         else
           let msg = msgInferiorStopFailed e (mi_data (findChild (data response) ''msg''))
           in emit (inferiorShutdownFailed msg) (setState InferiorShutdownFailed a1))"

definition handleExit :: "env \<Rightarrow> GdbResponse \<Rightarrow> adapter \<Rightarrow> adapter" where
  "handleExit e response a0 =
     (if resultClass response = GdbResultDone then a0
      else
        let msg = msgGdbStopFailed e (mi_data (findChild (data response) ''msg''))
        in emit (adapterShutdownFailed msg) a0)"


subsection \<open>Reading a trace\<close>

text \<open>The events a call has added to the trace of the adapter it started from.\<close>

definition added :: "adapter \<Rightarrow> adapter \<Rightarrow> event list" where
  "added a a' = drop (length (trace a)) (trace a')"

fun is_assertion :: "event \<Rightarrow> bool" where
  "is_assertion (AssertionFailed txt) = True"
| "is_assertion ev = False"

fun is_emit :: "event \<Rightarrow> bool" where
  "is_emit (Emit sg) = True"
| "is_emit ev = False"

fun is_command :: "event \<Rightarrow> bool" where
  "is_command (PostCommand cmd flag cb) = True"
| "is_command ev = False"


fun is_process_start :: "event \<Rightarrow> bool" where
  "is_process_start (ProcStart prog args) = True"
| "is_process_start ev = False"

fun is_signal_sent :: "event \<Rightarrow> bool" where
  "is_signal_sent (InterruptProcess pid ok) = True"
| "is_signal_sent ev = False"

text \<open>An adapter in a given state that has done nothing yet, for concrete runs.\<close>

definition adapter_in :: "DebuggerState \<Rightarrow> adapter" where
  "adapter_in st =
     \<lparr>state = st, inferiorPid = 0,
      startParameters = \<lparr>executable = ''a.out'', processArgs = [], workingDir = [], environment = []\<rparr>,
      collectorListening = False, trace = []\<rparr>"

definition env0 :: env where
  "env0 =
     \<lparr>collectorListen = False, collectorErrorString = ''bind failed'',
      collectorServerName = ''/tmp/tty'', gdbLocation = ''gdb'',
      interruptProcess = (\<lambda>pid. True), msgInferiorStarted = ''started'',
      msgInferiorStopFailed = (\<lambda>why. why), msgGdbStopFailed = (\<lambda>why. why),
      errorMessage = (\<lambda>err. ''error''), absoluteFilePath = (\<lambda>p. p)\<rparr>"

text \<open>Responses and parameters for concrete runs.\<close>

definition response_of :: "GdbResultClass \<Rightarrow> string \<Rightarrow> GdbResponse" where
  "response_of rc msg = \<lparr>resultClass = rc, data = GdbMi [] [] [GdbMi ''msg'' msg []]\<rparr>"

text \<open>
  Modelled from the spec: the states from which the specification's transition table
  lets \<open>shutdown\<close> be called (Running, Stopping, Stopped, and ShutDown).
\<close>

definition spec_shutdown_precondition :: "DebuggerState list" where
  "spec_shutdown_precondition =
     [InferiorRunning, InferiorStopping, InferiorStopped, InferiorShutDown]"

section \<open>Properties\<close>

lemmas effect_defs =
  record_event_def debugMessage_def showStatusMessage_def setState_def postCommand_def
  emit_def QTC_ASSERT_def added_def

subsection \<open>Shutdown from the running and the shut-down inferior\<close>

text \<open>
  C1. Whenever \<open>shutdown\<close> is called with the state InferiorRunning, InferiorStopping
  or InferiorStopped, the state becomes InferiorShuttingDown and the command \<open>kill\<close>
  is posted (answered by \<open>handleKill\<close>); whenever it is called with the state
  InferiorShutDown, the state becomes AdapterShuttingDown and the command
  \<open>-gdb-exit\<close> is posted (answered by \<open>handleExit\<close>). In both cases the command is
  the only one the call posts.
\<close>

theorem shutdown_transitions:
  "(state a = InferiorRunning \<or> state a = InferiorStopping \<or> state a = InferiorStopped \<longrightarrow>
      state (shutdown a) = InferiorShuttingDown \<and>
      filter is_command (added a (shutdown a)) = [PostCommand ''kill'' NoFlags CB_handleKill]) \<and>
   (state a = InferiorShutDown \<longrightarrow>
      state (shutdown a) = AdapterShuttingDown \<and>
      filter is_command (added a (shutdown a)) = [PostCommand ''-gdb-exit'' NoFlags CB_handleExit])"
  by (auto simp: shutdown_def effect_defs Let_def)

theorem shutdown_transitions_witness:
  "state (adapter_in InferiorStopped) = InferiorStopped \<and>
   state (shutdown (adapter_in InferiorStopped)) = InferiorShuttingDown \<and>
   filter is_command (added (adapter_in InferiorStopped) (shutdown (adapter_in InferiorStopped)))
     = [PostCommand ''kill'' NoFlags CB_handleKill] \<and>
   state (adapter_in InferiorShutDown) = InferiorShutDown \<and>
   state (shutdown (adapter_in InferiorShutDown)) = AdapterShuttingDown \<and>
   filter is_command (added (adapter_in InferiorShutDown) (shutdown (adapter_in InferiorShutDown)))
     = [PostCommand ''-gdb-exit'' NoFlags CB_handleExit]"
  using shutdown_transitions [of "adapter_in InferiorStopped"]
        shutdown_transitions [of "adapter_in InferiorShutDown"]
  by (simp add: adapter_in_def)

subsection \<open>The whole shutdown sequence\<close>


subsection \<open>Calls in a state the operation does not expect\<close>

text \<open>
  C3, as the specification states it: a call of an operation in a state that is not
  listed as its precondition is flagged, never taken as a normal transition. The
  specification lists Running, Stopping, Stopped and ShutDown for \<open>shutdown\<close>. The
  code also has a case label for InferiorRunningRequested: from there \<open>shutdown\<close>
  reports no failed assertion, moves to InferiorShuttingDown and posts \<open>kill\<close>.
\<close>

theorem wrong_state_counterexample:
  "InferiorRunningRequested \<notin> set spec_shutdown_precondition
   \<and> \<not> list_ex is_assertion
         (added (adapter_in InferiorRunningRequested) (shutdown (adapter_in InferiorRunningRequested)))
   \<and> state (shutdown (adapter_in InferiorRunningRequested)) = InferiorShuttingDown
   \<and> filter is_command
         (added (adapter_in InferiorRunningRequested) (shutdown (adapter_in InferiorRunningRequested)))
       = [PostCommand ''kill'' NoFlags CB_handleKill]"
  by (simp add: spec_shutdown_precondition_def shutdown_def adapter_in_def effect_defs)

text \<open>
  C3, amended. The operations that check the state report a failed assertion exactly
  when they are called in a state other than the one they check for: EngineStarting
  for \<open>startAdapter\<close>, AdapterStarting for \<open>handleGdbStarted\<close>, AdapterStarted for
  \<open>prepareInferior\<close>, InferiorPreparing for \<open>handleFileExecAndSymbols\<close>,
  InferiorStarting for \<open>startInferior\<close>, for \<open>handleExecRun\<close> InferiorRunning on a
  Running answer and InferiorRunningRequested on any other, and for \<open>shutdown\<close> the
  states InferiorRunningRequested, InferiorRunning, InferiorStopping, InferiorStopped
  and InferiorShutDown. (Nothing is said of \<open>handleKill\<close> and \<open>handleExit\<close>.)
\<close>

theorem wrong_state_flagged:
  "(list_ex is_assertion (added a (startAdapter e a)) \<longleftrightarrow> state a \<noteq> EngineStarting)
   \<and> (list_ex is_assertion (added a (handleGdbStarted a)) \<longleftrightarrow> state a \<noteq> AdapterStarting)
   \<and> (list_ex is_assertion (added a (prepareInferior e a)) \<longleftrightarrow> state a \<noteq> AdapterStarted)
   \<and> (list_ex is_assertion (added a (handleFileExecAndSymbols r a))
        \<longleftrightarrow> state a \<noteq> InferiorPreparing)
   \<and> (list_ex is_assertion (added a (startInferior a)) \<longleftrightarrow> state a \<noteq> InferiorStarting)
   \<and> (list_ex is_assertion (added a (handleExecRun e r a))
        \<longleftrightarrow> state a \<noteq> (if resultClass r = GdbResultRunning then InferiorRunning
                          else InferiorRunningRequested))
   \<and> (list_ex is_assertion (added a (shutdown a))
        \<longleftrightarrow> state a \<notin> {InferiorRunningRequested, InferiorRunning, InferiorStopping,
                        InferiorStopped, InferiorShutDown})"
proof (intro conjI)
  show "list_ex is_assertion (added a (startAdapter e a)) \<longleftrightarrow> state a \<noteq> EngineStarting"
    by (simp add: startAdapter_def effect_defs Let_def)
  show "list_ex is_assertion (added a (handleGdbStarted a)) \<longleftrightarrow> state a \<noteq> AdapterStarting"
    by (simp add: handleGdbStarted_def effect_defs)
  show "list_ex is_assertion (added a (prepareInferior e a)) \<longleftrightarrow> state a \<noteq> AdapterStarted"
    by (simp add: prepareInferior_def effect_defs Let_def)
  show "list_ex is_assertion (added a (handleFileExecAndSymbols r a))
          \<longleftrightarrow> state a \<noteq> InferiorPreparing"
    by (simp add: handleFileExecAndSymbols_def effect_defs)
  show "list_ex is_assertion (added a (startInferior a)) \<longleftrightarrow> state a \<noteq> InferiorStarting"
    by (simp add: startInferior_def effect_defs)
  show "list_ex is_assertion (added a (handleExecRun e r a))
          \<longleftrightarrow> state a \<noteq> (if resultClass r = GdbResultRunning then InferiorRunning
                            else InferiorRunningRequested)"
    by (simp add: handleExecRun_def effect_defs)
  show "list_ex is_assertion (added a (shutdown a))
          \<longleftrightarrow> state a \<notin> {InferiorRunningRequested, InferiorRunning, InferiorStopping,
                          InferiorStopped, InferiorShutDown}"
    by (cases "state a") (simp_all add: shutdown_def effect_defs)
qed

theorem wrong_state_flagged_witness:
  "list_ex is_assertion (added (adapter_in InferiorStopped) (startAdapter env0 (adapter_in InferiorStopped)))
   \<and> \<not> list_ex is_assertion (added (adapter_in EngineStarting) (startAdapter env0 (adapter_in EngineStarting)))
   \<and> list_ex is_assertion (added (adapter_in AdapterShuttingDown) (shutdown (adapter_in AdapterShuttingDown)))
   \<and> list_ex is_assertion (added (adapter_in InferiorShuttingDown) (shutdown (adapter_in InferiorShuttingDown)))"
  using wrong_state_flagged [of "adapter_in InferiorStopped" env0]
        wrong_state_flagged [of "adapter_in EngineStarting" env0]
        wrong_state_flagged [of "adapter_in AdapterShuttingDown"]
        wrong_state_flagged [of "adapter_in InferiorShuttingDown"]
  by (simp add: adapter_in_def)

subsection \<open>The output collector cannot listen\<close>

text \<open>
  C4, as the specification states it: when the output collector cannot listen,
  \<open>startAdapter\<close> leaves the state as it was before the call. On the code the state
  is set to AdapterStarting before the collector is asked to listen, and it is not set
  back.
\<close>

theorem listen_failure_counterexample:
  "\<not> collectorListen env0
   \<and> state (startAdapter env0 (adapter_in EngineStarting)) \<noteq> state (adapter_in EngineStarting)"
  by (simp add: startAdapter_def adapter_in_def env0_def effect_defs)

text \<open>
  C4, amended. When the output collector cannot listen, \<open>startAdapter\<close> emits
  \<open>adapterStartFailed\<close> (with the collector's error text) and nothing else, starts no
  process, and leaves the state at AdapterStarting, the value it assigned on entry.
\<close>

theorem listen_failure:
  assumes "\<not> collectorListen e"
  shows "state (startAdapter e a) = AdapterStarting
       \<and> filter is_emit (added a (startAdapter e a))
           = [Emit (adapterStartFailed
                      (''Cannot set up communication with child process: ''
                         @ collectorErrorString e) [])]
       \<and> \<not> list_ex is_process_start (added a (startAdapter e a))
       \<and> \<not> collectorListening (startAdapter e a)"
  using assms
  by (simp add: startAdapter_def tr_def effect_defs Let_def)

theorem listen_failure_witness:
  "\<not> collectorListen env0
   \<and> state (startAdapter env0 (adapter_in EngineStarting)) = AdapterStarting
   \<and> filter is_emit (added (adapter_in EngineStarting) (startAdapter env0 (adapter_in EngineStarting)))
       = [Emit (adapterStartFailed ''Cannot set up communication with child process: bind failed'' [])]
   \<and> \<not> list_ex is_process_start
         (added (adapter_in EngineStarting) (startAdapter env0 (adapter_in EngineStarting)))"
proof -
  have h: "\<not> collectorListen env0"
    by (simp add: env0_def)
  show ?thesis
    using h listen_failure [OF h, of "adapter_in EngineStarting"]
    by (simp add: env0_def)
qed

subsection \<open>The executable cannot be loaded\<close>

text \<open>
  C5. When \<open>prepareInferior\<close> is called in the state AdapterStarted (Started, in the
  words of the specification) and the answer to \<open>-file-exec-and-symbols\<close> has the
  result class Error and the message \<open>file not found\<close>, the state becomes
  InferiorPreparationFailed and the one signal emitted is \<open>inferiorPreparationFailed\<close>
  with the text \<open>Starting executable failed:\<close>, a line feed, \<open>file not found\<close>.
\<close>

theorem preparation_failure:
  assumes "state a = AdapterStarted"
    and "resultClass r = GdbResultError"
    and "mi_data (findChild (data r) ''msg'') = ''file not found''"
  shows "state (prepareInferior e a) = InferiorPreparing
       \<and> state (handleFileExecAndSymbols r (prepareInferior e a)) = InferiorPreparationFailed
       \<and> filter is_emit (added a (handleFileExecAndSymbols r (prepareInferior e a)))
           = [Emit (inferiorPreparationFailed
                      (''Starting executable failed:'' @ [CHR 0x0A] @ ''file not found''))]
       \<and> \<not> list_ex is_assertion (added a (handleFileExecAndSymbols r (prepareInferior e a)))"
  using assms
  by (simp add: prepareInferior_def handleFileExecAndSymbols_def tr_def effect_defs Let_def)

theorem preparation_failure_witness:
  "state (adapter_in AdapterStarted) = AdapterStarted
   \<and> resultClass (response_of GdbResultError ''file not found'') = GdbResultError
   \<and> mi_data (findChild (data (response_of GdbResultError ''file not found'')) ''msg'')
       = ''file not found''
   \<and> state (handleFileExecAndSymbols (response_of GdbResultError ''file not found'')
        (prepareInferior env0 (adapter_in AdapterStarted))) = InferiorPreparationFailed
   \<and> filter is_emit
        (added (adapter_in AdapterStarted)
           (handleFileExecAndSymbols (response_of GdbResultError ''file not found'')
              (prepareInferior env0 (adapter_in AdapterStarted))))
       = [Emit (inferiorPreparationFailed
                  (''Starting executable failed:'' @ [CHR 0x0A] @ ''file not found''))]"
proof -
  have st: "state (adapter_in AdapterStarted) = AdapterStarted"
    by (simp add: adapter_in_def)
  have rc: "resultClass (response_of GdbResultError ''file not found'') = GdbResultError"
    by (simp add: response_of_def)
  have msg: "mi_data (findChild (data (response_of GdbResultError ''file not found'')) ''msg'')
               = ''file not found''"
    by (simp add: response_of_def findChild_def)
  show ?thesis
    using st rc msg preparation_failure [OF st rc msg, of env0] by simp
qed

subsection \<open>Interrupting before the inferior has a process id\<close>

text \<open>
  C6. When \<open>interruptInferior\<close> is called while the engine knows no process id for
  the inferior (the id is not positive), the call writes its two log lines and does
  nothing else: nothing but the trace of the adapter changes, so the state is as
  before, no process is sent a signal, and no signal of the adapter is emitted.
\<close>

theorem interrupt_without_pid:
  assumes "sint (inferiorPid a) \<le> 0"
  shows "interruptInferior e a
           = a\<lparr>trace := trace a @
                 [DebugMessage ''TRYING TO INTERUPT INFERIOR'' [],
                  DebugMessage ''TRYING TO INTERRUPT INFERIOR BEFORE PID WAS OBTAINED'' []]\<rparr>
       \<and> state (interruptInferior e a) = state a
       \<and> \<not> list_ex is_signal_sent (added a (interruptInferior e a))
       \<and> \<not> list_ex is_emit (added a (interruptInferior e a))"
  using assms
  by (simp add: interruptInferior_def effect_defs Let_def)

theorem interrupt_without_pid_witness:
  "sint (inferiorPid (adapter_in InferiorRunning)) \<le> 0
   \<and> added (adapter_in InferiorRunning) (interruptInferior env0 (adapter_in InferiorRunning))
       = [DebugMessage ''TRYING TO INTERUPT INFERIOR'' [],
          DebugMessage ''TRYING TO INTERRUPT INFERIOR BEFORE PID WAS OBTAINED'' []]
   \<and> state (interruptInferior env0 (adapter_in InferiorRunning)) = InferiorRunning"
proof -
  have h: "sint (inferiorPid (adapter_in InferiorRunning)) \<le> 0"
    by (simp add: adapter_in_def)
  show ?thesis
    using h interrupt_without_pid [OF h, of env0]
    by (simp add: adapter_in_def added_def)
qed

subsection \<open>The answer to kill\<close>

text \<open>
  C7. When the answer to \<open>kill\<close> arrives in the state InferiorShuttingDown: if its
  result class is Done, the state is set to InferiorShutDown, \<open>inferiorShutDown\<close> is
  emitted and \<open>shutdown\<close> is called again, which from InferiorShutDown shuts the
  output collector, sets AdapterShuttingDown and posts \<open>-gdb-exit\<close>; otherwise the
  state is set to InferiorShutdownFailed and \<open>inferiorShutdownFailed\<close> is emitted
  with the text that \<open>msgInferiorStopFailed\<close> builds from the \<open>msg\<close> field of the
  answer.
\<close>

theorem handleKill_transitions:
  assumes "state a = InferiorShuttingDown"
  shows "(resultClass r = GdbResultDone \<longrightarrow>
            handleKill e r a
              = shutdown (emit inferiorShutDown (setState InferiorShutDown
                  (debugMessage ''PLAIN ADAPTER HANDLE KILL '' [ArgResponse r] a)))
          \<and> added a (handleKill e r a)
              = [DebugMessage ''PLAIN ADAPTER HANDLE KILL '' [ArgResponse r],
                 SetState InferiorShutDown,
                 Emit inferiorShutDown,
                 DebugMessage ''PLAIN ADAPTER SHUTDOWN %1'' [ArgState InferiorShutDown],
                 CollectorShutdown,
                 SetState AdapterShuttingDown,
                 PostCommand ''-gdb-exit'' NoFlags CB_handleExit]
          \<and> state (handleKill e r a) = AdapterShuttingDown)
       \<and> (resultClass r \<noteq> GdbResultDone \<longrightarrow>
            added a (handleKill e r a)
              = [DebugMessage ''PLAIN ADAPTER HANDLE KILL '' [ArgResponse r],
                 SetState InferiorShutdownFailed,
                 Emit (inferiorShutdownFailed
                         (msgInferiorStopFailed e (mi_data (findChild (data r) ''msg''))))]
          \<and> state (handleKill e r a) = InferiorShutdownFailed)"
  using assms
  by (simp add: handleKill_def shutdown_def effect_defs Let_def)

theorem handleKill_transitions_witness:
  "state (adapter_in InferiorShuttingDown) = InferiorShuttingDown
   \<and> state (handleKill env0 (response_of GdbResultDone []) (adapter_in InferiorShuttingDown))
       = AdapterShuttingDown
   \<and> filter is_emit
        (added (adapter_in InferiorShuttingDown)
           (handleKill env0 (response_of GdbResultDone []) (adapter_in InferiorShuttingDown)))
       = [Emit inferiorShutDown]
   \<and> state (handleKill env0 (response_of GdbResultError ''no process'')
        (adapter_in InferiorShuttingDown)) = InferiorShutdownFailed
   \<and> filter is_emit
        (added (adapter_in InferiorShuttingDown)
           (handleKill env0 (response_of GdbResultError ''no process'')
              (adapter_in InferiorShuttingDown)))
       = [Emit (inferiorShutdownFailed ''no process'')]"
proof -
  have st: "state (adapter_in InferiorShuttingDown) = InferiorShuttingDown"
    by (simp add: adapter_in_def)
  have rc: "resultClass (response_of GdbResultDone []) = GdbResultDone"
    "resultClass (response_of GdbResultError ''no process'') \<noteq> GdbResultDone"
    by (simp_all add: response_of_def)
  have done_case:
    "added (adapter_in InferiorShuttingDown)
        (handleKill env0 (response_of GdbResultDone []) (adapter_in InferiorShuttingDown))
       = [DebugMessage ''PLAIN ADAPTER HANDLE KILL '' [ArgResponse (response_of GdbResultDone [])],
          SetState InferiorShutDown,
          Emit inferiorShutDown,
          DebugMessage ''PLAIN ADAPTER SHUTDOWN %1'' [ArgState InferiorShutDown],
          CollectorShutdown,
          SetState AdapterShuttingDown,
          PostCommand ''-gdb-exit'' NoFlags CB_handleExit]
     \<and> state (handleKill env0 (response_of GdbResultDone []) (adapter_in InferiorShuttingDown))
       = AdapterShuttingDown"
    using handleKill_transitions [OF st, of "response_of GdbResultDone []" env0] rc(1)
    by blast
  have failed_case:
    "added (adapter_in InferiorShuttingDown)
        (handleKill env0 (response_of GdbResultError ''no process'') (adapter_in InferiorShuttingDown))
       = [DebugMessage ''PLAIN ADAPTER HANDLE KILL ''
            [ArgResponse (response_of GdbResultError ''no process'')],
          SetState InferiorShutdownFailed,
          Emit (inferiorShutdownFailed
                  (msgInferiorStopFailed env0
                     (mi_data (findChild (data (response_of GdbResultError ''no process'')) ''msg''))))]
     \<and> state (handleKill env0 (response_of GdbResultError ''no process'')
          (adapter_in InferiorShuttingDown)) = InferiorShutdownFailed"
    using handleKill_transitions [OF st, of "response_of GdbResultError ''no process''" env0] rc(2)
    by blast
  have msg: "msgInferiorStopFailed env0
               (mi_data (findChild (data (response_of GdbResultError ''no process'')) ''msg''))
             = ''no process''"
    by (simp add: response_of_def findChild_def env0_def)
  show ?thesis
    using st done_case failed_case msg by simp
qed

subsection \<open>Starting the inferior\<close>



subsection \<open>The output collector is shut on every shutdown\<close>

text \<open>
  C9. Every call of \<open>shutdown\<close>, whatever the state, writes its log line and then
  shuts the output collector, before the state is looked at: the collector does not
  listen afterwards.
\<close>

theorem shutdown_closes_collector:
  "take 2 (added a (shutdown a))
     = [DebugMessage ''PLAIN ADAPTER SHUTDOWN %1'' [ArgState (state a)], CollectorShutdown]
   \<and> \<not> collectorListening (shutdown a)"
  by (cases "state a") (simp_all add: shutdown_def effect_defs)

theorem shutdown_closes_collector_witness:
  "take 2 (added (adapter_in InferiorStartFailed) (shutdown (adapter_in InferiorStartFailed)))
     = [DebugMessage ''PLAIN ADAPTER SHUTDOWN %1'' [ArgState InferiorStartFailed], CollectorShutdown]
   \<and> \<not> collectorListening (shutdown (adapter_in InferiorStartFailed))"
  using shutdown_closes_collector [of "adapter_in InferiorStartFailed"]
  by (simp add: adapter_in_def)

subsection \<open>The answer to -gdb-exit\<close>

text \<open>
  C10. \<open>handleExit\<close> never changes the state. On a Done answer it changes nothing at
  all and emits nothing; on any other answer all it does is emit
  \<open>adapterShutdownFailed\<close> with the text that \<open>msgGdbStopFailed\<close> builds from the
  \<open>msg\<close> field of the answer.
\<close>

theorem handleExit_keeps_state:
  "state (handleExit e r a) = state a
   \<and> (resultClass r = GdbResultDone \<longrightarrow> handleExit e r a = a)
   \<and> (resultClass r \<noteq> GdbResultDone \<longrightarrow>
        handleExit e r a
          = a\<lparr>trace := trace a @
                [Emit (adapterShutdownFailed
                         (msgGdbStopFailed e (mi_data (findChild (data r) ''msg''))))]\<rparr>)"
  by (simp add: handleExit_def effect_defs)

theorem handleExit_keeps_state_witness:
  "state (handleExit env0 (response_of GdbResultDone []) (adapter_in AdapterShuttingDown))
     = AdapterShuttingDown
   \<and> added (adapter_in AdapterShuttingDown)
        (handleExit env0 (response_of GdbResultDone []) (adapter_in AdapterShuttingDown)) = []
   \<and> state (handleExit env0 (response_of GdbResultError ''busy'') (adapter_in AdapterShuttingDown))
     = AdapterShuttingDown
   \<and> added (adapter_in AdapterShuttingDown)
        (handleExit env0 (response_of GdbResultError ''busy'') (adapter_in AdapterShuttingDown))
       = [Emit (adapterShutdownFailed ''busy'')]"
  using handleExit_keeps_state [of env0 "response_of GdbResultDone []" "adapter_in AdapterShuttingDown"]
        handleExit_keeps_state [of env0 "response_of GdbResultError ''busy''" "adapter_in AdapterShuttingDown"]
  by (simp add: response_of_def findChild_def env0_def adapter_in_def added_def)

end
